theory Spec2Isabelle
  imports Main
begin

section \<open>C strings, buffers and undefined behaviour\<close>

text \<open>
  A \<^verbatim>\<open>const char*\<close> argument is either \<^verbatim>\<open>NULL\<close> (\<open>None\<close>) or points to a C string, which
  the model holds as the characters in front of its terminator. A heap block is the
  list of the bytes it holds, one entry per allocated byte; a pointer to the heap is
  \<open>None\<close> when it is null.
\<close>

definition NUL :: char where
  "NUL = CHR 0x00"

text \<open>
  A call either completes with a value or writes outside an object, after which C
  promises nothing.
\<close>

datatype 'a outcome = Undefined | Returns 'a

text \<open>
  The two \<^verbatim>\<open>sprintf\<close> calls of the repository each have a format with one \<^verbatim>\<open>%s\<close>
  conversion and nothing else to convert: the argument is copied in its place, character
  for character, and the rest of the format follows as it is.
\<close>

fun format :: "string \<Rightarrow> string \<Rightarrow> string" where
  "format (a # b # fmt) arg =
     (if a = CHR ''%'' \<and> b = CHR ''s'' then arg @ fmt else a # format (b # fmt) arg)"
| "format fmt arg = fmt"

text \<open>
  \<^verbatim>\<open>sprintf\<close> stores the formatted text and a terminator from the start of the target,
  without knowing how large the target is: \<open>capacity\<close> is the size of the object the
  caller passed.
\<close>

definition sprintf :: "nat \<Rightarrow> string \<Rightarrow> string outcome" where
  "sprintf capacity text =
     (if length (text @ [NUL]) \<le> capacity then Returns text else Undefined)"

text \<open>
  What the caller reads through a returned \<^verbatim>\<open>char*\<close>: the bytes up to the first
  terminator of the block, and nothing defined when the block holds no terminator.
\<close>

definition c_str :: "char list \<Rightarrow> string option" where
  "c_str block =
     (if NUL \<in> set block then Some (takeWhile (\<lambda>c. c \<noteq> NUL) block) else None)"


section \<open>The response buffer\<close>

record MemoryStruct =
  memory :: "char list option"
  size_m :: nat

text \<open>
  Fresh heap bytes hold whatever the allocator left there. \<open>granted\<close> says whether the
  allocator returns a block at all. \<^verbatim>\<open>realloc\<close> keeps the old bytes up to the new size,
  and allocates like \<^verbatim>\<open>malloc\<close> when the old pointer is null.
\<close>

definition malloc :: "(nat \<Rightarrow> char) \<Rightarrow> bool \<Rightarrow> nat \<Rightarrow> char list option" where
  "malloc indet granted n = (if granted then Some (map indet [0..<n]) else None)"

definition realloc ::
  "(nat \<Rightarrow> char) \<Rightarrow> bool \<Rightarrow> char list option \<Rightarrow> nat \<Rightarrow> char list option" where
  "realloc indet granted block n =
     (if granted then
        Some (case block of
                None \<Rightarrow> map indet [0..<n]
              | Some old \<Rightarrow> take n old @ map indet [length old..<n])
      else None)"

text \<open>
  \<open>memcpy dst off src n\<close> copies the first \<open>n\<close> bytes of \<open>src\<close> to \<open>dst[off..off+n)\<close>.
  The callback calls it on a block of \<open>off + n + 1\<close> bytes, so the copy and the store of
  the terminator after it stay inside the block.
\<close>

definition memcpy :: "char list \<Rightarrow> nat \<Rightarrow> char list \<Rightarrow> nat \<Rightarrow> char list" where
  "memcpy dst off src n = take off dst @ take n src @ drop (off + n) dst"

text \<open>
  The callback returns the number of bytes it took, the updated buffer and the lines it
  printed. \<open>contents\<close> are the bytes at the pointer curl passes, \<open>size' * nmemb\<close> of them
  (\<open>size'\<close> is the parameter \<^verbatim>\<open>size\<close>). The \<^verbatim>\<open>size_t\<close> values are natural numbers:
  each is the length of bytes held in memory, or one more than the sum of two such
  lengths, and stays below \<open>2^64\<close>.
\<close>

definition WriteMemoryCallback ::
  "(nat \<Rightarrow> char) \<Rightarrow> bool \<Rightarrow> char list \<Rightarrow> nat \<Rightarrow> nat \<Rightarrow> MemoryStruct
     \<Rightarrow> nat \<times> MemoryStruct \<times> string list" where
  "WriteMemoryCallback indet granted contents size' nmemb mem =
     (let realsize = size' * nmemb in
      case realloc indet granted (memory mem) (size_m mem + realsize + 1) of
        None \<Rightarrow> (0, mem, [''Not enough memory (realloc returned NULL)'' @ [CHR 0x0A]])
      | Some ptr \<Rightarrow>
          (let copied = memcpy ptr (size_m mem) contents realsize;
               new_size = size_m mem + realsize
           in (realsize, \<lparr>memory = Some (copied[new_size := NUL]), size_m = new_size\<rparr>, [])))"

text \<open>
  The bytes a buffer has accumulated are the first \<open>size\<close> bytes of its block. Every
  buffer of a call has a block one byte longer than its \<open>size\<close>, or no block and \<open>size\<close> 0.
\<close>

definition held :: "MemoryStruct \<Rightarrow> char list" where
  "held mem = (case memory mem of None \<Rightarrow> [] | Some block \<Rightarrow> take (size_m mem) block)"

definition well_sized :: "MemoryStruct \<Rightarrow> bool" where
  "well_sized mem =
     (case memory mem of None \<Rightarrow> size_m mem = 0 | Some block \<Rightarrow> length block = size_m mem + 1)"


section \<open>The surroundings\<close>

text \<open>
  libcurl, the server and the allocator are outside the repository. The handle carries
  the options \<^verbatim>\<open>execute_query\<close> sets on it.
\<close>

type_synonym CURLcode = nat

definition CURLE_OK :: CURLcode where
  "CURLE_OK = 0"

definition CURLE_WRITE_ERROR :: CURLcode where
  "CURLE_WRITE_ERROR = 23"

record CURL =
  CURLOPT_URL :: string
  CURLOPT_POST :: int
  CURLOPT_POSTFIELDS :: string
  CURLOPT_HTTPHEADER :: "string list"

text \<open>
  One piece of the response body as it reaches the write callback, with the answer the
  allocator gives to the \<^verbatim>\<open>realloc\<close> of that call.
\<close>

record delivery =
  contents :: "char list"
  realloc_ok :: bool

text \<open>
  What the network does with one request: the pieces of the body that arrive, in order,
  and the code the transfer ends with when every piece is taken.
\<close>

record transfer =
  pieces :: "delivery list"
  code :: CURLcode

text \<open>
  What a call meets: the bytes found in fresh heap memory (\<open>indet i\<close> at offset \<open>i\<close>),
  whether \<^verbatim>\<open>strdup\<close> and the \<^verbatim>\<open>malloc(1)\<close> of the response buffer return a block, whether
  \<^verbatim>\<open>curl_easy_init\<close> returns a handle, and what the network and \<^verbatim>\<open>curl_easy_strerror\<close>
  answer.
\<close>

record env =
  indet :: "nat \<Rightarrow> char"
  strdup_ok :: bool
  malloc_ok :: bool
  curl_easy_init :: bool
  network :: "CURL \<Rightarrow> transfer"
  curl_easy_strerror :: "CURLcode \<Rightarrow> string"


section \<open>The connection state\<close>

text \<open>
  \<^verbatim>\<open>static char* server_url = NULL;\<close> is the only state of the library. The pointer is
  private to the file and only ever holds the result of \<^verbatim>\<open>strdup\<close>, so the state is the
  string it points to, if any.
\<close>

record globals =
  server_url :: "string option"

definition startup :: globals where
  "startup = \<lparr>server_url = None\<rparr>"

text \<open>
  \<^verbatim>\<open>strdup\<close> yields a block of its own with the same characters, or \<^verbatim>\<open>NULL\<close> when the
  allocator refuses. \<^verbatim>\<open>initialize_connection\<close> stores the result without testing it.
\<close>

definition strdup :: "bool \<Rightarrow> string \<Rightarrow> string option" where
  "strdup granted s = (if granted then Some s else None)"

definition initialize_connection :: "env \<Rightarrow> globals \<Rightarrow> string option \<Rightarrow> int \<times> globals" where
  "initialize_connection e st url =
     (case url of
        None \<Rightarrow> (- 1, st)
      | Some u \<Rightarrow> (0, st\<lparr>server_url := strdup (strdup_ok e) u\<rparr>))"

definition close_connection :: "globals \<Rightarrow> globals" where
  "close_connection st =
     (if server_url st \<noteq> None then st\<lparr>server_url := None\<rparr> else st)"


section \<open>The transport\<close>

text \<open>
  curl hands each piece to the write callback with \<open>size = 1\<close>. A callback that returns
  another number than it was given ends the transfer with \<^verbatim>\<open>CURLE_WRITE_ERROR\<close>, and
  the pieces after it are never handed over.
\<close>

fun deliver :: "(nat \<Rightarrow> char) \<Rightarrow> delivery list \<Rightarrow> MemoryStruct
    \<Rightarrow> bool \<times> MemoryStruct \<times> string list" where
  "deliver ind [] mem = (True, mem, [])"
| "deliver ind (d # ds) mem =
     (case WriteMemoryCallback ind (realloc_ok d) (contents d) 1 (length (contents d)) mem of
        (taken, mem', out) \<Rightarrow>
          if taken = length (contents d)
          then (case deliver ind ds mem' of (ok, mem'', out') \<Rightarrow> (ok, mem'', out @ out'))
          else (False, mem', out))"

definition curl_easy_perform :: "env \<Rightarrow> CURL \<Rightarrow> MemoryStruct
    \<Rightarrow> CURLcode \<times> MemoryStruct \<times> string list" where
  "curl_easy_perform e curl mem =
     (case deliver (indet e) (pieces (network e curl)) mem of
        (ok, mem', out) \<Rightarrow>
          ((if ok then code (network e curl) else CURLE_WRITE_ERROR), mem', out))"


section \<open>Executing a query\<close>

text \<open>
  A call returns the \<^verbatim>\<open>char*\<close> (\<open>None\<close> for \<^verbatim>\<open>NULL\<close>, otherwise the block it points to),
  the requests handed to \<^verbatim>\<open>curl_easy_perform\<close>, and what was printed. The global
  set-up and clean-up of libcurl, \<^verbatim>\<open>curl_easy_cleanup\<close> and \<^verbatim>\<open>free(full_url)\<close> change none
  of these.

  The result of \<^verbatim>\<open>malloc(1)\<close> is stored untested, as the source does. The block for
  \<^verbatim>\<open>full_url\<close> is the target of the first \<^verbatim>\<open>sprintf\<close>, with \<open>strlen(server_url) + 20\<close>
  bytes; the model has the runs in which that block is granted, since with a null
  \<^verbatim>\<open>full_url\<close> the \<^verbatim>\<open>sprintf\<close> writes through a null pointer and the run has no defined
  behaviour from there on.
\<close>

record reply =
  returned :: "char list option"
  requests :: "CURL list"
  stdout :: "string list"
  stderr :: "string list"

definition no_reply :: reply where
  "no_reply = \<lparr>returned = None, requests = [], stdout = [], stderr = []\<rparr>"

definition execute_query :: "env \<Rightarrow> globals \<Rightarrow> string option \<Rightarrow> (reply \<times> globals) outcome" where
  "execute_query e st query =
     (case (server_url st, query) of
        (Some u, Some q) \<Rightarrow>
          (let chunk = \<lparr>memory = malloc (indet e) (malloc_ok e) 1, size_m = 0\<rparr> in
           if curl_easy_init e then
             (case sprintf (length u + 20) (format ''%s/execute_query'' u) of
                Undefined \<Rightarrow> Undefined
              | Returns full_url \<Rightarrow>
                  (case sprintf 1024 (format ''{\"query\": \"%s\"}'' q) of
                     Undefined \<Rightarrow> Undefined
                   | Returns post_data \<Rightarrow>
                       (let curl = \<lparr>CURLOPT_URL = full_url, CURLOPT_POST = 1,
                                    CURLOPT_POSTFIELDS = post_data,
                                    CURLOPT_HTTPHEADER = [''Content-Type: application/json'']\<rparr>
                        in case curl_easy_perform e curl chunk of
                             (res, chunk', out) \<Rightarrow>
                               Returns
                                 (\<lparr>returned = memory chunk', requests = [curl],
                                   stdout = out,
                                   stderr =
                                     (if res \<noteq> CURLE_OK
                                      then [''curl_easy_perform() failed: '' @
                                            curl_easy_strerror e res @ [CHR 0x0A]]
                                      else [])\<rparr>, st))))
           else Returns
                  (\<lparr>returned = memory chunk, requests = [], stdout = [], stderr = []\<rparr>, st))
      | _ \<Rightarrow> Returns (no_reply, st))"


section \<open>JSON texts\<close>

text \<open>
  The repository has no JSON code. What is said of the request body as JSON is measured
  against the grammar of RFC 8259, written here as a recogniser: each function returns
  the input left after what it recognised, or \<open>None\<close>. \<open>json_chars\<close> reads a string after
  its opening quote; bytes from 0x80 on are taken as parts of UTF-8 characters, without a
  check of their encoding.
\<close>

definition ws_char :: "char \<Rightarrow> bool" where
  "ws_char c \<longleftrightarrow> c \<in> set [CHR '' '', CHR 0x09, CHR 0x0A, CHR 0x0D]"

definition skip_ws :: "string \<Rightarrow> string" where
  "skip_ws s = dropWhile ws_char s"

definition digit :: "char \<Rightarrow> bool" where
  "digit c \<longleftrightarrow> c \<in> set ''0123456789''"

definition hex_digit :: "char \<Rightarrow> bool" where
  "hex_digit c \<longleftrightarrow> c \<in> set ''0123456789abcdefABCDEF''"

fun json_chars :: "string \<Rightarrow> string option" where
  "json_chars [] = None"
| "json_chars (c # cs) =
     (if c = CHR 0x22 then Some cs
      else if c = CHR 0x5C then
        (case cs of
           [] \<Rightarrow> None
         | e # es \<Rightarrow>
             if e \<in> set [CHR 0x22, CHR 0x5C, CHR ''/'', CHR ''b'', CHR ''f'', CHR ''n'',
                          CHR ''r'', CHR ''t'']
             then json_chars es
             else if e = CHR ''u'' then
               (case es of
                  h1 # h2 # h3 # h4 # rest \<Rightarrow>
                    if hex_digit h1 \<and> hex_digit h2 \<and> hex_digit h3 \<and> hex_digit h4
                    then json_chars rest else None
                | _ \<Rightarrow> None)
             else None)
      else if (of_char c :: nat) < 32 then None
      else json_chars cs)"

definition json_digits :: "string \<Rightarrow> string option" where
  "json_digits s = (if takeWhile digit s = [] then None else Some (dropWhile digit s))"

definition json_number :: "string \<Rightarrow> string option" where
  "json_number s =
     (let unsigned = (case s of c # cs \<Rightarrow> if c = CHR ''-'' then cs else s | [] \<Rightarrow> s);
          after_int =
            (case unsigned of
               [] \<Rightarrow> None
             | c # cs \<Rightarrow>
                 if c = CHR ''0'' then Some cs
                 else if digit c then Some (dropWhile digit cs)
                 else None);
          after_frac =
            (case after_int of
               None \<Rightarrow> None
             | Some r \<Rightarrow>
                 (case r of
                    c # cs \<Rightarrow> if c = CHR ''.'' then json_digits cs else Some r
                  | [] \<Rightarrow> Some r))
      in case after_frac of
           None \<Rightarrow> None
         | Some r \<Rightarrow>
             (case r of
                c # cs \<Rightarrow>
                  if c = CHR ''e'' \<or> c = CHR ''E'' then
                    (case cs of
                       d # ds \<Rightarrow> if d = CHR ''+'' \<or> d = CHR ''-'' then json_digits ds
                                 else json_digits cs
                     | [] \<Rightarrow> None)
                  else Some r
              | [] \<Rightarrow> Some r))"

definition json_literal :: "string \<Rightarrow> string \<Rightarrow> string option" where
  "json_literal lit s =
     (if take (length lit) s = lit then Some (drop (length lit) s) else None)"

text \<open>
  The count bounds how many values, members and elements are entered one inside or
  after the other. Each takes at least one character, so the length of a text is count
  enough for it.
\<close>

fun json_value :: "nat \<Rightarrow> string \<Rightarrow> string option"
  and json_members :: "nat \<Rightarrow> string \<Rightarrow> string option"
  and json_elements :: "nat \<Rightarrow> string \<Rightarrow> string option" where
  "json_value 0 s = None"
| "json_value (Suc n) s =
     (case s of
        [] \<Rightarrow> None
      | c # cs \<Rightarrow>
          if c = CHR ''{'' then
            (case skip_ws cs of
               [] \<Rightarrow> None
             | d # ds \<Rightarrow> if d = CHR ''}'' then Some ds else json_members n (d # ds))
          else if c = CHR ''['' then
            (case skip_ws cs of
               [] \<Rightarrow> None
             | d # ds \<Rightarrow> if d = CHR '']'' then Some ds else json_elements n (d # ds))
          else if c = CHR 0x22 then json_chars cs
          else if c = CHR ''t'' then json_literal ''true'' s
          else if c = CHR ''f'' then json_literal ''false'' s
          else if c = CHR ''n'' then json_literal ''null'' s
          else json_number s)"
| "json_members 0 s = None"
| "json_members (Suc n) s =
     (case s of
        [] \<Rightarrow> None
      | c # cs \<Rightarrow>
          if c = CHR 0x22 then
            (case json_chars cs of
               None \<Rightarrow> None
             | Some after_name \<Rightarrow>
                 (case skip_ws after_name of
                    [] \<Rightarrow> None
                  | k # ks \<Rightarrow>
                      if k = CHR '':'' then
                        (case json_value n (skip_ws ks) of
                           None \<Rightarrow> None
                         | Some after_value \<Rightarrow>
                             (case skip_ws after_value of
                                [] \<Rightarrow> None
                              | e # es \<Rightarrow>
                                  if e = CHR ''}'' then Some es
                                  else if e = CHR '','' then json_members n (skip_ws es)
                                  else None))
                      else None))
          else None)"
| "json_elements 0 s = None"
| "json_elements (Suc n) s =
     (case json_value n s of
        None \<Rightarrow> None
      | Some after_value \<Rightarrow>
          (case skip_ws after_value of
             [] \<Rightarrow> None
           | e # es \<Rightarrow>
               if e = CHR '']'' then Some es
               else if e = CHR '','' then json_elements n (skip_ws es)
               else None))"

definition json_text :: "string \<Rightarrow> bool" where
  "json_text s =
     (case json_value (length s) (skip_ws s) of
        None \<Rightarrow> False
      | Some rest \<Rightarrow> skip_ws rest = [])"


section \<open>Scenarios\<close>

text \<open>
  A configured client, the request it builds for \<^verbatim>\<open>SELECT 1\<close>, and four surroundings:
  a server whose answer arrives in the pieces \<^verbatim>\<open>ab\<close>, \<^verbatim>\<open>cd\<close>, \<^verbatim>\<open>ef\<close>; the same answer with
  the second \<^verbatim>\<open>realloc\<close> refused; a server that cannot be reached; and an allocator that
  refuses every request. Fresh heap bytes hold \<^verbatim>\<open>x\<close> in all four.
\<close>

definition localhost :: globals where
  "localhost = \<lparr>server_url = Some ''http://localhost:9000''\<rparr>"

definition select_1 :: CURL where
  "select_1 =
     \<lparr>CURLOPT_URL = ''http://localhost:9000/execute_query'', CURLOPT_POST = 1,
      CURLOPT_POSTFIELDS = ''{\"query\": \"SELECT 1\"}'',
      CURLOPT_HTTPHEADER = [''Content-Type: application/json'']\<rparr>"

definition three_pieces :: env where
  "three_pieces =
     \<lparr>indet = (\<lambda>i. CHR ''x''), strdup_ok = True, malloc_ok = True, curl_easy_init = True,
      network = (\<lambda>c. \<lparr>pieces = [\<lparr>contents = ''ab'', realloc_ok = True\<rparr>,
                                  \<lparr>contents = ''cd'', realloc_ok = True\<rparr>,
                                  \<lparr>contents = ''ef'', realloc_ok = True\<rparr>],
                        code = CURLE_OK\<rparr>),
      curl_easy_strerror = (\<lambda>c. ''error'')\<rparr>"

definition refused_growth :: env where
  "refused_growth =
     \<lparr>indet = (\<lambda>i. CHR ''x''), strdup_ok = True, malloc_ok = True, curl_easy_init = True,
      network = (\<lambda>c. \<lparr>pieces = [\<lparr>contents = ''ab'', realloc_ok = True\<rparr>,
                                  \<lparr>contents = ''cd'', realloc_ok = False\<rparr>,
                                  \<lparr>contents = ''ef'', realloc_ok = True\<rparr>],
                        code = CURLE_OK\<rparr>),
      curl_easy_strerror = (\<lambda>c. ''Failed writing received data to disk/application'')\<rparr>"

definition server_down :: env where
  "server_down =
     \<lparr>indet = (\<lambda>i. CHR ''x''), strdup_ok = True, malloc_ok = True, curl_easy_init = True,
      network = (\<lambda>c. \<lparr>pieces = [], code = 7\<rparr>),
      curl_easy_strerror = (\<lambda>c. ''Could not connect to server'')\<rparr>"

definition out_of_memory :: env where
  "out_of_memory =
     \<lparr>indet = (\<lambda>i. CHR ''x''), strdup_ok = False, malloc_ok = False, curl_easy_init = True,
      network = (\<lambda>c. \<lparr>pieces = [], code = 7\<rparr>),
      curl_easy_strerror = (\<lambda>c. ''Could not connect to server'')\<rparr>"


section \<open>Formatting and the two buffers\<close>

lemma format_url: "format ''%s/execute_query'' u = u @ ''/execute_query''"
  by simp

lemma format_body: "format ''{\"query\": \"%s\"}'' q = ''{\"query\": \"'' @ q @ ''\"}''"
  by simp

text \<open>The url buffer has \<open>strlen(server_url) + 20\<close> bytes and 15 are needed.\<close>

lemma sprintf_url:
  "sprintf (length u + 20) (format ''%s/execute_query'' u) = Returns (u @ ''/execute_query'')"
  by (simp add: sprintf_def)

text \<open>The body buffer has 1024 bytes and \<open>length q + 14\<close> are needed.\<close>

lemma sprintf_body:
  "sprintf 1024 (format ''{\"query\": \"%s\"}'' q) =
     (if length q \<le> 1010 then Returns (''{\"query\": \"'' @ q @ ''\"}'') else Undefined)"
  by (simp add: sprintf_def)

lemma takeWhile_terminator:
  "NUL \<notin> set bs \<Longrightarrow> takeWhile (\<lambda>c. c \<noteq> NUL) (bs @ NUL # rest) = bs"
  by (induction bs) auto

lemma c_str_terminated: "NUL \<notin> set bs \<Longrightarrow> c_str (bs @ [NUL]) = Some bs"
  by (simp add: c_str_def takeWhile_terminator)


section \<open>The write callback\<close>

lemma store_after_copy:
  "length xs = a \<Longrightarrow> length ys = 1 \<Longrightarrow> (xs @ c @ ys)[a + length c := v] = xs @ c @ [v]"
  by (cases ys) (simp_all add: list_update_append)

lemma WriteMemoryCallback_refused:
  "WriteMemoryCallback ind False c s n mem =
     (0, mem, [''Not enough memory (realloc returned NULL)'' @ [CHR 0x0A]])"
  by (simp add: WriteMemoryCallback_def realloc_def)

lemma held_length: "well_sized mem \<Longrightarrow> length (held mem) = size_m mem"
  by (auto simp: well_sized_def held_def split: option.splits)

lemma fresh_chunk:
  "well_sized \<lparr>memory = malloc ind granted 1, size_m = 0\<rparr>"
  "held \<lparr>memory = malloc ind granted n, size_m = 0\<rparr> = []"
  by (simp_all add: well_sized_def held_def malloc_def)

lemma grown_chunk:
  assumes "well_sized mem"
  shows "well_sized \<lparr>memory = Some (held mem @ c @ [NUL]), size_m = size_m mem + length c\<rparr>"
    and "held \<lparr>memory = Some (held mem @ c @ [NUL]), size_m = size_m mem + length c\<rparr>
           = held mem @ c"
  using held_length [OF assms] by (simp_all add: well_sized_def held_def)

text \<open>
  A granted call keeps the bytes accumulated so far, appends the piece and ends the block
  with the terminator, also when the buffer had no block yet.
\<close>

lemma WriteMemoryCallback_granted:
  assumes "well_sized mem"
  shows "WriteMemoryCallback ind True c 1 (length c) mem =
           (length c,
            \<lparr>memory = Some (held mem @ c @ [NUL]), size_m = size_m mem + length c\<rparr>, [])"
proof -
  define n where "n = size_m mem + length c + 1"
  define ptr where
    "ptr = (case memory mem of
              None \<Rightarrow> map ind [0..<n]
            | Some old \<Rightarrow> take n old @ map ind [length old..<n])"
  have grown: "realloc ind True (memory mem) (size_m mem + 1 * length c + 1) = Some ptr"
    unfolding realloc_def ptr_def n_def by (simp cong: option.case_cong)
  have len: "length ptr = n"
  proof (cases "memory mem")
    case None
    then show ?thesis by (simp add: ptr_def)
  next
    case (Some old)
    with assms have "length old = size_m mem + 1"
      by (simp add: well_sized_def)
    then have "length (take n old @ map ind [length old..<n]) = n"
      unfolding length_append length_map length_upt length_take n_def by arith
    with Some show ?thesis by (simp add: ptr_def)
  qed
  have front: "take (size_m mem) ptr = held mem"
    using assms by (auto simp: ptr_def held_def well_sized_def n_def split: option.splits)
  have last: "length (drop (size_m mem + length c) ptr) = 1"
    using len by (simp add: n_def)
  have "memcpy ptr (size_m mem) c (length c) =
          held mem @ c @ drop (size_m mem + length c) ptr"
    by (simp add: memcpy_def front)
  then have
    "(memcpy ptr (size_m mem) c (length c))[size_m mem + length c := NUL] =
        held mem @ c @ [NUL]"
    using last held_length [OF assms] by (simp only: store_after_copy)
  then show ?thesis
    using grown by (simp add: WriteMemoryCallback_def Let_def)
qed

lemma deliver_Cons_granted:
  assumes "well_sized mem" and "realloc_ok d"
  shows "deliver ind (d # ds) mem =
           deliver ind ds
             \<lparr>memory = Some (held mem @ contents d @ [NUL]),
              size_m = size_m mem + length (contents d)\<rparr>"
  unfolding deliver.simps
  using assms WriteMemoryCallback_granted [of mem ind "contents d"]
  by (simp split: prod.splits)

lemma deliver_Cons_refused:
  assumes "\<not> realloc_ok d" and "contents d \<noteq> []"
  shows "deliver ind (d # ds) mem =
           (False, mem, [''Not enough memory (realloc returned NULL)'' @ [CHR 0x0A]])"
  unfolding deliver.simps
  using assms by (simp add: WriteMemoryCallback_refused)

lemma deliver_granted:
  assumes "well_sized mem" and "\<forall>d \<in> set ds. realloc_ok d"
  shows "deliver ind ds mem =
           (True,
            \<lparr>memory = (if ds = [] then memory mem
                       else Some (held mem @ concat (map contents ds) @ [NUL])),
             size_m = size_m mem + length (concat (map contents ds))\<rparr>, [])"
  using assms
proof (induction ds arbitrary: mem)
  case Nil
  then show ?case by simp
next
  case (Cons d ds)
  let ?mem' = "\<lparr>memory = Some (held mem @ contents d @ [NUL]),
                size_m = size_m mem + length (contents d)\<rparr>"
  have first: "deliver ind (d # ds) mem = deliver ind ds ?mem'"
    using Cons.prems by (simp add: deliver_Cons_granted del: deliver.simps)
  have rest: "\<forall>d \<in> set ds. realloc_ok d"
    using Cons.prems(2) by simp
  show ?case
    unfolding first
    by (simp add: Cons.IH [OF grown_chunk(1) [OF Cons.prems(1)] rest]
        grown_chunk(2) [OF Cons.prems(1)] del: deliver.simps)
qed

text \<open>
  A refused \<^verbatim>\<open>realloc\<close> on a piece that has bytes ends the transfer with the buffer as
  the pieces before it left it.
\<close>

lemma deliver_until_refusal:
  assumes "well_sized mem" and "\<forall>t \<in> set ts. realloc_ok t"
    and "\<not> realloc_ok d" and "contents d \<noteq> []"
  shows "deliver ind (ts @ d # rest) mem =
           (False,
            \<lparr>memory = (if ts = [] then memory mem
                       else Some (held mem @ concat (map contents ts) @ [NUL])),
             size_m = size_m mem + length (concat (map contents ts))\<rparr>,
            [''Not enough memory (realloc returned NULL)'' @ [CHR 0x0A]])"
  using assms(1,2)
proof (induction ts arbitrary: mem)
  case Nil
  then show ?case
    using assms(3,4) by (simp add: deliver_Cons_refused del: deliver.simps)
next
  case (Cons t ts)
  let ?mem' = "\<lparr>memory = Some (held mem @ contents t @ [NUL]),
                size_m = size_m mem + length (contents t)\<rparr>"
  have first: "deliver ind ((t # ts) @ d # rest) mem = deliver ind (ts @ d # rest) ?mem'"
    using Cons.prems by (simp add: deliver_Cons_granted del: deliver.simps)
  have granted: "\<forall>t \<in> set ts. realloc_ok t"
    using Cons.prems(2) by simp
  show ?case
    unfolding first
    by (simp add: Cons.IH [OF grown_chunk(1) [OF Cons.prems(1)] granted]
        grown_chunk(2) [OF Cons.prems(1)] del: deliver.simps)
qed


section \<open>The shape of a call\<close>

lemma initialize_connection_null: "initialize_connection e st None = (- 1, st)"
  by (simp add: initialize_connection_def)

text \<open>With the copy granted, the url is stored in place of whatever was stored before.\<close>

lemma initialize_connection_granted:
  "strdup_ok e \<Longrightarrow> initialize_connection e st (Some u) = (0, \<lparr>server_url = Some u\<rparr>)"
  by (simp add: initialize_connection_def strdup_def)

lemma initialize_connection_twice:
  "strdup_ok e \<Longrightarrow>
   snd (initialize_connection e (snd (initialize_connection e st (Some u1))) (Some u2))
     = \<lparr>server_url = Some u2\<rparr>"
  by (simp add: initialize_connection_granted)

text \<open>With the copy refused, the call still returns 0 and the state is unset.\<close>

lemma initialize_connection_refused:
  "\<not> strdup_ok e \<Longrightarrow> initialize_connection e st (Some u) = (0, startup)"
  by (simp add: initialize_connection_def strdup_def startup_def)

lemma execute_query_unset:
  "server_url st = None \<or> query = None \<Longrightarrow> execute_query e st query = Returns (no_reply, st)"
  by (auto simp: execute_query_def split: option.splits)

lemma execute_query_set:
  "server_url st = Some u \<Longrightarrow>
   execute_query e st (Some q) =
     (if curl_easy_init e then
        (if length q \<le> 1010 then
           (let curl = \<lparr>CURLOPT_URL = u @ ''/execute_query'', CURLOPT_POST = 1,
                        CURLOPT_POSTFIELDS = ''{\"query\": \"'' @ q @ ''\"}'',
                        CURLOPT_HTTPHEADER = [''Content-Type: application/json'']\<rparr>;
                done = curl_easy_perform e curl
                         \<lparr>memory = malloc (indet e) (malloc_ok e) 1, size_m = 0\<rparr>
            in Returns
                 (\<lparr>returned = memory (fst (snd done)), requests = [curl],
                   stdout = snd (snd done),
                   stderr =
                     (if fst done \<noteq> CURLE_OK
                      then [''curl_easy_perform() failed: '' @
                            curl_easy_strerror e (fst done) @ [CHR 0x0A]]
                      else [])\<rparr>, st))
         else Undefined)
      else Returns
             (\<lparr>returned = malloc (indet e) (malloc_ok e) 1, requests = [], stdout = [],
               stderr = []\<rparr>, st))"
  unfolding execute_query_def
  by (simp add: sprintf_url sprintf_body Let_def split: prod.splits del: format.simps)

text \<open>The only call without a defined outcome is the one that overflows the body buffer.\<close>

lemma execute_query_undefined_iff:
  "execute_query e st query = Undefined \<longleftrightarrow>
     (\<exists>u q. server_url st = Some u \<and> query = Some q \<and> curl_easy_init e \<and> 1010 < length q)"
  by (cases "server_url st"; cases query)
     (auto simp: execute_query_unset execute_query_set Let_def)

text \<open>
  When the callback is never run (no handle, or no piece arrives) the pointer returned is
  what \<^verbatim>\<open>malloc(1)\<close> gave: null, or a block of one byte that the source never writes.
\<close>

lemma execute_query_untouched_block:
  assumes "server_url st = Some u" and "execute_query e st (Some q) = Returns (r, st')"
    and "requests r = [] \<or> (\<exists>c. requests r = [c] \<and> pieces (network e c) = [])"
  shows "returned r = (if malloc_ok e then Some [indet e 0] else None)"
  using assms(2,3)
  by (auto simp: execute_query_set [OF assms(1)] Let_def curl_easy_perform_def malloc_def
      split: if_splits)

text \<open>A buffer that has a block keeps having one.\<close>

lemma deliver_keeps_block:
  "deliver ind ds mem = (ok, mem', out) \<Longrightarrow> memory mem \<noteq> None \<Longrightarrow> memory mem' \<noteq> None"
proof (induction ds arbitrary: mem ok mem' out)
  case Nil
  then show ?case by simp
next
  case (Cons d ds)
  obtain taken mid printed where
    step: "WriteMemoryCallback ind (realloc_ok d) (contents d) 1 (length (contents d)) mem
             = (taken, mid, printed)"
    by (cases "WriteMemoryCallback ind (realloc_ok d) (contents d) 1 (length (contents d)) mem")
  have mid: "memory mid \<noteq> None"
    using step Cons.prems(2)
    by (auto simp: WriteMemoryCallback_def Let_def realloc_def split: option.splits if_splits)
  show ?case
  proof (cases "taken = length (contents d)")
    case True
    obtain ok2 mem2 out2 where rest: "deliver ind ds mid = (ok2, mem2, out2)"
      by (cases "deliver ind ds mid")
    from Cons.prems(1) have "mem' = mem2"
      unfolding deliver.simps step using True rest by simp
    with Cons.IH [OF rest mid] show ?thesis by simp
  next
    case False
    from Cons.prems(1) have "mem' = mid"
      unfolding deliver.simps step using False by simp
    with mid show ?thesis by simp
  qed
qed

text \<open>
  With the preconditions met and \<^verbatim>\<open>malloc(1)\<close> granted, a call that completes returns a
  block, never \<^verbatim>\<open>NULL\<close>.
\<close>

lemma execute_query_returned_nonnull:
  assumes "server_url st = Some u" and "execute_query e st (Some q) = Returns (r, st')"
    and "malloc_ok e"
  shows "returned r \<noteq> None"
proof (cases "curl_easy_init e")
  case False
  with assms(2,3) show ?thesis
    by (auto simp: execute_query_set [OF assms(1)] malloc_def)
next
  case True
  let ?chunk = "\<lparr>memory = malloc (indet e) (malloc_ok e) 1, size_m = 0\<rparr>"
  let ?curl = "\<lparr>CURLOPT_URL = u @ ''/execute_query'', CURLOPT_POST = 1,
                CURLOPT_POSTFIELDS = ''{\"query\": \"'' @ q @ ''\"}'',
                CURLOPT_HTTPHEADER = [''Content-Type: application/json'']\<rparr>"
  obtain ok mem' out where
    all: "deliver (indet e) (pieces (network e ?curl)) ?chunk = (ok, mem', out)"
    by (cases "deliver (indet e) (pieces (network e ?curl)) ?chunk")
  have "memory ?chunk \<noteq> None"
    using assms(3) by (simp add: malloc_def)
  from deliver_keeps_block [OF all this] have "memory mem' \<noteq> None" .
  moreover have "returned r = memory (fst (snd (curl_easy_perform e ?curl ?chunk)))"
    using assms(2) True
    by (auto simp: execute_query_set [OF assms(1)] Let_def split: if_splits)
  moreover have "memory (fst (snd (curl_easy_perform e ?curl ?chunk))) = memory mem'"
    unfolding curl_easy_perform_def all by simp
  ultimately show ?thesis by simp
qed

text \<open>
  A transfer cut short by a refused \<^verbatim>\<open>realloc\<close>, after pieces that were taken: the block
  returned holds those pieces and the terminator, and the failure is reported on
  \<^verbatim>\<open>stderr\<close>.
\<close>

lemma execute_query_partial_response:
  assumes "server_url st = Some u"
    and "execute_query e st (Some q) = Returns (r, st')"
    and "requests r = [c]"
    and "pieces (network e c) = ts @ d # rest"
    and "ts \<noteq> []" and "\<forall>t \<in> set ts. realloc_ok t"
    and "\<not> realloc_ok d" and "contents d \<noteq> []"
  shows "returned r = Some (concat (map contents ts) @ [NUL])
         \<and> stderr r = [''curl_easy_perform() failed: '' @
                         curl_easy_strerror e CURLE_WRITE_ERROR @ [CHR 0x0A]]"
proof -
  let ?chunk = "\<lparr>memory = malloc (indet e) (malloc_ok e) 1, size_m = 0\<rparr>"
  have cut: "deliver (indet e) (pieces (network e c)) ?chunk =
               (False,
                \<lparr>memory = Some (concat (map contents ts) @ [NUL]),
                 size_m = length (concat (map contents ts))\<rparr>,
                [''Not enough memory (realloc returned NULL)'' @ [CHR 0x0A]])"
    unfolding assms(4)
    using deliver_until_refusal [of ?chunk ts d "indet e" rest, OF fresh_chunk(1) assms(6,7,8)]
      assms(5)
    by (simp add: fresh_chunk(2))
  have "r = \<lparr>returned = memory (fst (snd (curl_easy_perform e c ?chunk))),
             requests = [c], stdout = snd (snd (curl_easy_perform e c ?chunk)),
             stderr =
               (if fst (curl_easy_perform e c ?chunk) \<noteq> CURLE_OK
                then [''curl_easy_perform() failed: '' @
                      curl_easy_strerror e (fst (curl_easy_perform e c ?chunk)) @ [CHR 0x0A]]
                else [])\<rparr>"
    using assms(2,3)
    by (auto simp: execute_query_set [OF assms(1)] Let_def split: if_splits)
  then show ?thesis
    unfolding curl_easy_perform_def cut
    by (simp add: CURLE_OK_def CURLE_WRITE_ERROR_def)
qed

text \<open>
  The empty string is a url like any other: once stored, a query is posted to
  \<^verbatim>\<open>/execute_query\<close>.
\<close>

lemma empty_url_is_posted:
  assumes "curl_easy_init e" and "length q \<le> 1010"
  shows "\<exists>r. execute_query e \<lparr>server_url = Some ''''\<rparr> (Some q)
               = Returns (r, \<lparr>server_url = Some ''''\<rparr>)
             \<and> map CURLOPT_URL (requests r) = [''/execute_query'']"
proof -
  have "server_url \<lparr>server_url = Some ''''\<rparr> = Some ''''"
    by simp
  from execute_query_set [OF this, of e q] assms show ?thesis
    by (simp add: Let_def)
qed


section \<open>The request body as JSON\<close>



text \<open>
  A double quote in the query can also close the string and open a member of its own:
  the body for \<^verbatim>\<open>x", "y": "z\<close> is well-formed, with two members.
\<close>

lemma injected_member_body_is_json:
  "json_text (''{\"query\": \"'' @ ''x\", \"y\": \"z'' @ ''\"}'')"
  by code_simp

text \<open>The body for a lone double quote is refused whatever the count.\<close>

lemma quote_body_refused_at_any_count:
  "json_value n (''{\"query\": \"'' @ [CHR 0x22] @ ''\"}'') = None"
proof (cases n)
  case 0
  then show ?thesis by simp
next
  case (Suc m)
  show ?thesis
  proof (cases m)
    case 0
    with Suc show ?thesis by (simp add: skip_ws_def ws_char_def)
  next
    case (Suc k)
    with \<open>n = Suc m\<close> show ?thesis
      by (cases k) (simp_all add: skip_ws_def ws_char_def)
  qed
qed


section \<open>The scenarios, run\<close>

lemma three_pieces_deliver:
  "deliver (\<lambda>i. CHR ''x'')
     [\<lparr>contents = ''ab'', realloc_ok = True\<rparr>, \<lparr>contents = ''cd'', realloc_ok = True\<rparr>,
      \<lparr>contents = ''ef'', realloc_ok = True\<rparr>] \<lparr>memory = Some ''x'', size_m = 0\<rparr>
   = (True, \<lparr>memory = Some (''abcdef'' @ [NUL]), size_m = 6\<rparr>, [])"
  by (simp add: deliver_granted well_sized_def held_def del: deliver.simps)

lemma refused_growth_deliver:
  "deliver (\<lambda>i. CHR ''x'')
     [\<lparr>contents = ''ab'', realloc_ok = True\<rparr>, \<lparr>contents = ''cd'', realloc_ok = False\<rparr>,
      \<lparr>contents = ''ef'', realloc_ok = True\<rparr>] \<lparr>memory = Some ''x'', size_m = 0\<rparr>
   = (False, \<lparr>memory = Some (''ab'' @ [NUL]), size_m = 2\<rparr>,
      [''Not enough memory (realloc returned NULL)'' @ [CHR 0x0A]])"
  by (simp add: deliver_Cons_granted deliver_Cons_refused well_sized_def held_def
      del: deliver.simps)

lemma three_pieces_run_any:
  assumes "length q \<le> 1010"
  shows "execute_query three_pieces localhost (Some q) =
           Returns (\<lparr>returned = Some (''abcdef'' @ [NUL]),
                     requests = [\<lparr>CURLOPT_URL = ''http://localhost:9000/execute_query'',
                                  CURLOPT_POST = 1,
                                  CURLOPT_POSTFIELDS = ''{\"query\": \"'' @ q @ ''\"}'',
                                  CURLOPT_HTTPHEADER = [''Content-Type: application/json'']\<rparr>],
                     stdout = [], stderr = []\<rparr>, localhost)"
proof -
  have "server_url localhost = Some ''http://localhost:9000''"
    by (simp add: localhost_def)
  from execute_query_set [OF this, of three_pieces q] assms show ?thesis
    by (simp add: three_pieces_def curl_easy_perform_def three_pieces_deliver malloc_def
        CURLE_OK_def del: deliver.simps)
qed

lemma three_pieces_run:
  "execute_query three_pieces localhost (Some ''SELECT 1'') =
     Returns (\<lparr>returned = Some (''abcdef'' @ [NUL]), requests = [select_1],
               stdout = [], stderr = []\<rparr>, localhost)"
  using three_pieces_run_any [of "''SELECT 1''"] by (simp add: select_1_def)

lemma refused_growth_run:
  "execute_query refused_growth localhost (Some ''SELECT 1'') =
     Returns (\<lparr>returned = Some (''ab'' @ [NUL]), requests = [select_1],
               stdout = [''Not enough memory (realloc returned NULL)'' @ [CHR 0x0A]],
               stderr = [''curl_easy_perform() failed: '' @
                         ''Failed writing received data to disk/application'' @ [CHR 0x0A]]\<rparr>,
              localhost)"
proof -
  have "server_url localhost = Some ''http://localhost:9000''"
    by (simp add: localhost_def)
  from execute_query_set [OF this, of refused_growth "''SELECT 1''"] show ?thesis
    by (simp add: refused_growth_def select_1_def curl_easy_perform_def refused_growth_deliver
        malloc_def CURLE_OK_def CURLE_WRITE_ERROR_def del: deliver.simps)
qed

lemma server_down_run:
  "execute_query server_down localhost (Some ''SELECT 1'') =
     Returns (\<lparr>returned = Some ''x'', requests = [select_1], stdout = [],
               stderr = [''curl_easy_perform() failed: '' @
                         ''Could not connect to server'' @ [CHR 0x0A]]\<rparr>,
              localhost)"
proof -
  have "server_url localhost = Some ''http://localhost:9000''"
    by (simp add: localhost_def)
  from execute_query_set [OF this, of server_down "''SELECT 1''"] show ?thesis
    by (simp add: server_down_def select_1_def curl_easy_perform_def malloc_def CURLE_OK_def)
qed

text \<open>
  With \<^verbatim>\<open>malloc(1)\<close> refused and no piece arriving, the request is made and the call
  returns \<^verbatim>\<open>NULL\<close>.
\<close>

lemma out_of_memory_run:
  "execute_query out_of_memory localhost (Some ''SELECT 1'') =
     Returns (\<lparr>returned = None, requests = [select_1], stdout = [],
               stderr = [''curl_easy_perform() failed: '' @
                         ''Could not connect to server'' @ [CHR 0x0A]]\<rparr>,
              localhost)"
proof -
  have "server_url localhost = Some ''http://localhost:9000''"
    by (simp add: localhost_def)
  from execute_query_set [OF this, of out_of_memory "''SELECT 1''"] show ?thesis
    by (simp add: out_of_memory_def select_1_def curl_easy_perform_def malloc_def CURLE_OK_def)
qed


section \<open>Preconditions of a query\<close>

text \<open>
  C1. When the base URL is unset (never initialized, or closed) or the query argument is
  null, \<^verbatim>\<open>execute_query\<close> returns null and hands no request to the transport; after
  \<^verbatim>\<open>close_connection\<close> a call behaves as on the state the process starts with.
\<close>

theorem execute_query_preconditions:
  "execute_query e startup query = Returns (no_reply, startup)
   \<and> execute_query e st None = Returns (no_reply, st)
   \<and> returned no_reply = None \<and> requests no_reply = []
   \<and> execute_query e (close_connection st) query = execute_query e startup query"
  by (cases st) (simp add: execute_query_unset startup_def close_connection_def no_reply_def)


section \<open>The request\<close>







section \<open>The response\<close>

text \<open>
  C4, as the code has it. When at least one piece of the response reaches the write
  callback and every \<^verbatim>\<open>realloc\<close> is granted, the block returned is exactly the pieces in
  their order of arrival, followed by the terminator; the caller reads their concatenation
  when no piece holds a zero byte. For \<^verbatim>\<open>ab\<close>, \<^verbatim>\<open>cd\<close>, \<^verbatim>\<open>ef\<close> that is \<^verbatim>\<open>abcdef\<close>, of length 6.
\<close>

theorem execute_query_accumulates_pieces:
  assumes "server_url st = Some u"
    and "execute_query e st (Some q) = Returns (r, st')"
    and "requests r = [c]"
    and "pieces (network e c) \<noteq> []"
    and "\<forall>d \<in> set (pieces (network e c)). realloc_ok d"
  shows "\<exists>block. returned r = Some block
           \<and> block = concat (map contents (pieces (network e c))) @ [NUL]
           \<and> (NUL \<notin> set (concat (map contents (pieces (network e c)))) \<longrightarrow>
                c_str block = Some (concat (map contents (pieces (network e c)))))"
proof -
  let ?chunk = "\<lparr>memory = malloc (indet e) (malloc_ok e) 1, size_m = 0\<rparr>"
  have all: "deliver (indet e) (pieces (network e c)) ?chunk =
               (True,
                \<lparr>memory = Some (concat (map contents (pieces (network e c))) @ [NUL]),
                 size_m = length (concat (map contents (pieces (network e c))))\<rparr>, [])"
    using deliver_granted
        [of ?chunk "pieces (network e c)" "indet e", OF fresh_chunk(1) assms(5)] assms(4)
    by (simp add: fresh_chunk(2))
  have "returned r = memory (fst (snd (curl_easy_perform e c ?chunk)))"
    using assms(2,3)
    by (auto simp: execute_query_set [OF assms(1)] Let_def split: if_splits)
  also have "\<dots> = Some (concat (map contents (pieces (network e c))) @ [NUL])"
    unfolding curl_easy_perform_def all by simp
  finally show ?thesis
    by (simp add: c_str_terminated)
qed

theorem execute_query_accumulates_pieces_witness:
  "server_url localhost = Some ''http://localhost:9000''
   \<and> pieces (network three_pieces select_1) \<noteq> []
   \<and> list_all realloc_ok (pieces (network three_pieces select_1))
   \<and> map contents (pieces (network three_pieces select_1)) = [''ab'', ''cd'', ''ef'']
   \<and> (\<exists>r block. execute_query three_pieces localhost (Some ''SELECT 1'') = Returns (r, localhost)
          \<and> returned r = Some block \<and> block = ''abcdef'' @ [NUL]
          \<and> c_str block = Some ''abcdef'' \<and> length ''abcdef'' = 6)"
  using execute_query_accumulates_pieces
      [of localhost "''http://localhost:9000''" three_pieces "''SELECT 1''" _ localhost select_1,
       OF _ three_pieces_run]
  by (simp add: three_pieces_run) (simp add: localhost_def three_pieces_def NUL_def)

text \<open>
  Against C4 as stated: the pieces \<^verbatim>\<open>ab\<close> and \<^verbatim>\<open>cd\<close> reach the callback in this order, the
  \<^verbatim>\<open>realloc\<close> for \<^verbatim>\<open>cd\<close> is refused, and the block returned holds \<^verbatim>\<open>ab\<close> alone.
\<close>

theorem refused_piece_is_dropped:
  "take 2 (pieces (network refused_growth select_1)) =
     [\<lparr>contents = ''ab'', realloc_ok = True\<rparr>, \<lparr>contents = ''cd'', realloc_ok = False\<rparr>]
   \<and> deliver (indet refused_growth) (take 2 (pieces (network refused_growth select_1)))
        \<lparr>memory = malloc (indet refused_growth) (malloc_ok refused_growth) 1, size_m = 0\<rparr>
      = (False, \<lparr>memory = Some (''ab'' @ [NUL]), size_m = 2\<rparr>,
         [''Not enough memory (realloc returned NULL)'' @ [CHR 0x0A]])
   \<and> execute_query refused_growth localhost (Some ''SELECT 1'') =
       Returns (\<lparr>returned = Some (''ab'' @ [NUL]), requests = [select_1],
                 stdout = [''Not enough memory (realloc returned NULL)'' @ [CHR 0x0A]],
                 stderr = [''curl_easy_perform() failed: '' @
                           ''Failed writing received data to disk/application'' @ [CHR 0x0A]]\<rparr>,
                localhost)
   \<and> ''ab'' @ [NUL] \<noteq> ''abcd'' @ [NUL]"
  by (simp add: refused_growth_run)
     (simp add: refused_growth_def malloc_def deliver_Cons_granted deliver_Cons_refused
        well_sized_def held_def del: deliver.simps)

text \<open>
  C5 says that after a failed transfer the caller holds a non-null buffer with exactly the
  bytes that had arrived, the empty string when none had. The code at a server that
  cannot be reached: no piece arrives, and the block returned is the one byte of
  \<^verbatim>\<open>malloc(1)\<close> as the allocator left it, here \<^verbatim>\<open>x\<close>, with no terminator in it.
\<close>

theorem server_down_returns_unterminated_block:
  "pieces (network server_down select_1) = []
   \<and> execute_query server_down localhost (Some ''SELECT 1'') =
       Returns (\<lparr>returned = Some ''x'', requests = [select_1], stdout = [],
                 stderr = [''curl_easy_perform() failed: '' @
                           ''Could not connect to server'' @ [CHR 0x0A]]\<rparr>,
                localhost)
   \<and> c_str ''x'' = None"
  by (simp add: server_down_run) (simp add: server_down_def c_str_def NUL_def)



section \<open>Connection lifecycle\<close>

text \<open>
  C6 says that a call with a url stores a copy of it in place of the url stored before
  and returns 0. The code when \<^verbatim>\<open>strdup\<close> finds no memory: the call returns 0 all the
  same, the state is unset, and the url stored before is gone.
\<close>

theorem initialize_connection_strdup_refused:
  "\<not> strdup_ok out_of_memory
   \<and> server_url localhost = Some ''http://localhost:9000''
   \<and> initialize_connection out_of_memory localhost (Some ''http://db.example:8000'')
       = (0, startup)
   \<and> server_url startup = None"
  by (simp add: initialize_connection_def strdup_def out_of_memory_def localhost_def startup_def)

text \<open>
  C7. \<^verbatim>\<open>close_connection\<close> leaves the state unset from any state, changes nothing when
  the state is unset already, and a second call in a row gives the state of the first.
\<close>

theorem close_connection_idempotent:
  "server_url (close_connection st) = None
   \<and> close_connection st = startup
   \<and> close_connection startup = startup
   \<and> close_connection (close_connection st) = close_connection st"
  by (cases st) (simp add: close_connection_def startup_def)


section \<open>The body buffer\<close>





section \<open>The empty base URL\<close>

text \<open>
  C9 says that \<^verbatim>\<open>initialize_connection\<close> on the empty string returns 0 and sets the base
  URL to the empty string, so that the query after it is posted to \<^verbatim>\<open>/execute_query\<close>.
  The code when \<^verbatim>\<open>strdup\<close> finds no memory: the call returns 0 with the state unset, and
  the query after it fails the precondition, returning \<^verbatim>\<open>NULL\<close> with no request made.
\<close>

theorem empty_url_strdup_refused:
  "\<not> strdup_ok out_of_memory
   \<and> initialize_connection out_of_memory startup (Some '''') = (0, startup)
   \<and> execute_query out_of_memory
         (snd (initialize_connection out_of_memory startup (Some ''''))) (Some ''SELECT 1'')
       = Returns (no_reply, startup)
   \<and> returned no_reply = None \<and> requests no_reply = []"
  by (simp add: initialize_connection_def strdup_def out_of_memory_def startup_def
      execute_query_unset no_reply_def)


section \<open>The state across a query\<close>

text \<open>
  C10. \<^verbatim>\<open>execute_query\<close> never changes the connection state: whatever the state and the
  query argument, a call that completes (with null, with a response, or after a transport
  failure) leaves the stored base URL as it found it.
\<close>

theorem execute_query_preserves_state:
  "execute_query e st query = Returns (r, st') \<Longrightarrow> st' = st \<and> server_url st' = server_url st"
  by (cases "server_url st"; cases query)
     (auto simp: execute_query_unset execute_query_set Let_def split: if_splits)

theorem execute_query_preserves_state_witness:
  "(\<exists>r st'. execute_query three_pieces localhost (Some ''SELECT 1'') = Returns (r, st')
       \<and> st' = localhost)
   \<and> (\<exists>r st'. execute_query server_down localhost (Some ''SELECT 1'') = Returns (r, st')
       \<and> st' = localhost)
   \<and> (\<exists>r st'. execute_query server_down localhost None = Returns (r, st') \<and> st' = localhost)"
  using execute_query_preserves_state [OF three_pieces_run]
    execute_query_preserves_state [OF server_down_run]
    execute_query_preserves_state [of server_down localhost None no_reply localhost]
  by (simp add: three_pieces_run server_down_run execute_query_unset)

end
